theory Spec2Isabelle
  imports Complex_Main "HOL-Library.Sublist"
begin

section \<open>Python strings and paths\<close>

text \<open>
  A Python \<open>str\<close> is a sequence of Unicode code points. It is modelled in two ways:
  as the list of its code points (\<open>nat list\<close>) where the request body is parsed, and
  as its UTF-8 encoding (\<open>string\<close>, a list of bytes) everywhere else; \<open>utf8\<close> goes
  from the first to the second. The operations below are the string and \<open>os.path\<close>
  functions the services call; they are library code (CPython, POSIX flavour), written
  out here because the handlers' behaviour depends on them. \<open>lower\<close> changes the ASCII
  letters only: its results are compared against ASCII constants alone (the allow-list
  and \<open>.wav\<close>), and no character outside ASCII lowercases into one of their letters.
\<close>

definition lower_char :: "char \<Rightarrow> char" where
  "lower_char c =
     (case map_of (zip ''ABCDEFGHIJKLMNOPQRSTUVWXYZ'' ''abcdefghijklmnopqrstuvwxyz'') c of
        Some l \<Rightarrow> l
      | None \<Rightarrow> c)"

definition lower :: "string \<Rightarrow> string" where
  "lower s = map lower_char s"

text \<open>
  The code points \<open>str.strip()\<close> removes: those of CPython's \<open>_PyUnicode_IsWhitespace\<close>
  (the ASCII ones, U+0085, U+00A0, U+1680, U+2000 to U+200A, U+2028, U+2029, U+202F,
  U+205F and U+3000).
\<close>

definition WHITESPACE :: "nat list" where
  "WHITESPACE =
     [0x09, 0x0A, 0x0B, 0x0C, 0x0D, 0x1C, 0x1D, 0x1E, 0x1F, 0x20, 0x85, 0xA0, 0x1680,
      0x2000, 0x2001, 0x2002, 0x2003, 0x2004, 0x2005, 0x2006, 0x2007, 0x2008, 0x2009, 0x200A,
      0x2028, 0x2029, 0x202F, 0x205F, 0x3000]"

definition is_space :: "nat \<Rightarrow> bool" where
  "is_space c = (c \<in> set WHITESPACE)"

text \<open>\<open>s.strip()\<close> on the code points of \<open>s\<close>.\<close>

definition ustrip :: "nat list \<Rightarrow> nat list" where
  "ustrip s = rev (dropWhile is_space (rev (dropWhile is_space s)))"

text \<open>The UTF-8 encoding of a code point and of a text.\<close>

definition utf8_char :: "nat \<Rightarrow> string" where
  "utf8_char c =
     (if c < 0x80 then [char_of c]
      else if c < 0x800 then [char_of (0xC0 + c div 64), char_of (0x80 + c mod 64)]
      else if c < 0x10000
      then [char_of (0xE0 + c div 4096), char_of (0x80 + c div 64 mod 64),
            char_of (0x80 + c mod 64)]
      else [char_of (0xF0 + c div 262144), char_of (0x80 + c div 4096 mod 64),
            char_of (0x80 + c div 64 mod 64), char_of (0x80 + c mod 64)])"

definition utf8 :: "nat list \<Rightarrow> string" where
  "utf8 s = concat (map utf8_char s)"

text \<open>
  \<open>s.strip()\<close> on the UTF-8 encoding of \<open>s\<close>: the encodings of the whitespace code
  points are removed from the front, then from the back, as long as one is there.
\<close>

definition WHITESPACE_UTF8 :: "string list" where
  "WHITESPACE_UTF8 = map utf8_char WHITESPACE"

function lstrip_seqs :: "string list \<Rightarrow> string \<Rightarrow> string" where
  "lstrip_seqs seqs s =
     (case find (\<lambda>q. q \<noteq> [] \<and> prefix q s) seqs of
        None \<Rightarrow> s
      | Some q \<Rightarrow> lstrip_seqs seqs (drop (length q) s))"
  by pat_completeness auto
termination
proof (relation "measure (\<lambda>(seqs, s). length s)")
  show "wf (measure (\<lambda>(seqs, s). length s))" by simp
next
  fix seqs :: "string list" and s q :: string
  assume "find (\<lambda>q. q \<noteq> [] \<and> prefix q s) seqs = Some q"
  then have "q \<noteq> []" and "prefix q s" by (auto simp: find_Some_iff)
  then show "((seqs, drop (length q) s), (seqs, s)) \<in> measure (\<lambda>(seqs, s). length s)"
    by (auto simp: prefix_def)
qed

declare lstrip_seqs.simps [simp del]

definition strip :: "string \<Rightarrow> string" where
  "strip s = rev (lstrip_seqs (map rev WHITESPACE_UTF8) (rev (lstrip_seqs WHITESPACE_UTF8 s)))"

definition nl :: "string" where
  "nl = [CHR 0x0A]"

fun str_join :: "string \<Rightarrow> string list \<Rightarrow> string" where
  "str_join sep [] = []"
| "str_join sep [x] = x"
| "str_join sep (x # y # ys) = x @ sep @ str_join sep (y # ys)"

text \<open>\<open>str(n)\<close> for a non-negative integer: its decimal digits.\<close>

definition digit_char :: "nat \<Rightarrow> char" where
  "digit_char d = ''0123456789'' ! d"

fun str_nat :: "nat \<Rightarrow> string" where
  "str_nat n = (if n < 10 then [digit_char n] else str_nat (n div 10) @ [digit_char (n mod 10)])"

text \<open>The text after, and before, the last occurrence of a character (\<open>rfind\<close>).\<close>

definition after_last :: "char \<Rightarrow> string \<Rightarrow> string" where
  "after_last c s = rev (takeWhile (\<lambda>x. x \<noteq> c) (rev s))"

definition before_last :: "char \<Rightarrow> string \<Rightarrow> string" where
  "before_last c s = rev (drop 1 (dropWhile (\<lambda>x. x \<noteq> c) (rev s)))"

text \<open>\<open>s.rsplit(sep, 1)\<close>: one split at the last separator, or the string alone.\<close>

definition rsplit1 :: "char \<Rightarrow> string \<Rightarrow> string list" where
  "rsplit1 sep s = (if sep \<in> set s then [before_last sep s, after_last sep s] else [s])"

type_synonym path = string

text \<open>\<open>os.path.join(a, b)\<close>, \<open>os.path.basename(p)\<close> and \<open>os.path.splitext(p)\<close>.
  \<open>splitext\<close> splits at the last dot of the last path component, unless that
  component has no dot or only leading dots before it.\<close>

definition path_join :: "path \<Rightarrow> path \<Rightarrow> path" where
  "path_join a b =
     (if b \<noteq> [] \<and> hd b = CHR ''/'' then b
      else if a = [] \<or> last a = CHR ''/'' then a @ b
      else a @ ''/'' @ b)"

definition basename :: "path \<Rightarrow> path" where
  "basename p = after_last (CHR ''/'') p"

definition splitext :: "path \<Rightarrow> path \<times> string" where
  "splitext p =
     (let base = after_last (CHR ''/'') p in
      if CHR ''.'' \<in> set base \<and> (\<exists>c \<in> set (before_last (CHR ''.'') base). c \<noteq> CHR ''.'')
      then (take (length p - length (after_last (CHR ''.'') base) - 1) p,
            CHR ''.'' # after_last (CHR ''.'') base)
      else (p, []))"

section \<open>The upload allow-list (app.py)\<close>

definition ALLOWED_EXTENSIONS :: "string set" where
  "ALLOWED_EXTENSIONS = {''wav'', ''mp3'', ''ogg'', ''m4a'', ''flac'', ''webm''}"

definition UPLOAD_FOLDER :: path where
  "UPLOAD_FOLDER = ''uploads''"

definition allowed_file :: "string \<Rightarrow> bool" where
  "allowed_file filename =
     (CHR ''.'' \<in> set filename \<and>
      lower (rsplit1 (CHR ''.'') filename ! 1) \<in> ALLOWED_EXTENSIONS)"

section \<open>The world outside the handlers\<close>

text \<open>
  The handlers act on the file system and call three external services. The file
  system is the set of paths that exist. \<open>calls\<close> is a ghost log: every call of a
  stage method (recognition, generation, synthesis) appends its argument, so that
  "the stage is not invoked" is a statement about the log.
\<close>

datatype stage_call = CallRecognize path | CallGenerate string | CallSynthesize string

record world =
  files :: "path set"
  calls :: "stage_call list"

text \<open>
  What the libraries and network services answer is not decided by this repository;
  a value of type \<open>extern\<close> fixes their answers for one request. A failed write may or may not
  leave a file behind (the flag), and carries the message of its exception.
\<close>

datatype write_outcome = Written | WriteFailed bool string

datatype decoder = FromMp3 | FromOgg | FromFileAs string | FromFileGeneric

datatype recognize_outcome =
    LoadError string
  | Recognized string
  | UnknownValueError
  | RequestError string

datatype generate_outcome = GenText string | GenNoResponse | GenError string

text \<open>
  The exceptions Python itself raises in the text handler, by the type of the value
  they are raised for. The handler forwards \<open>str(e)\<close>; the wording of these messages
  belongs to the interpreter and is a parameter (\<open>o_str_error\<close>).
\<close>

datatype py_type = NoneType | BoolType | IntType | StrType | ListType | DictType

datatype py_error =
    NotIterable py_type
  | BadIndex py_type
  | KeyErrorText
  | NoStripAttribute py_type

text \<open>
  \<open>o_save\<close> is \<open>file.save\<close>, \<open>o_decode\<close> the \<open>AudioSegment.from_*\<close> call (true when it
  returns), \<open>o_export\<close> is \<open>audio.export\<close>, \<open>o_recognize\<close> stands for loading the audio
  and \<open>recognize_google\<close>, \<open>o_generate\<close> for \<open>model.generate_content\<close>, \<open>o_tts_save\<close> for the
  synthesis and its \<open>save\<close>, and \<open>o_time\<close> is \<open>int(time.time())\<close>.
  \<open>o_set_order\<close> is the iteration order of the allow-list.
\<close>

record extern =
  o_secure_filename :: "string \<Rightarrow> string"
  o_save :: "path \<Rightarrow> write_outcome"
  o_decode :: "decoder \<Rightarrow> path \<Rightarrow> bool"
  o_export :: "path \<Rightarrow> write_outcome"
  o_recognize :: "path \<Rightarrow> recognize_outcome"
  o_generate :: "string \<Rightarrow> generate_outcome"
  o_tts_save :: "path \<Rightarrow> write_outcome"
  o_time :: nat
  o_set_order :: "string list"
  o_str_error :: "py_error \<Rightarrow> string"

text \<open>A write through a library: on success the path exists afterwards.\<close>

definition write_file :: "write_outcome \<Rightarrow> path \<Rightarrow> world \<Rightarrow> (string + unit) \<times> world" where
  "write_file out p w =
     (case out of
        Written \<Rightarrow> (Inr (), w\<lparr>files := insert p (files w)\<rparr>)
      | WriteFailed left msg \<Rightarrow>
          (Inl msg, if left then w\<lparr>files := insert p (files w)\<rparr> else w))"

text \<open>\<open>os.remove(p)\<close>: raises FileNotFoundError when the path does not exist.\<close>

definition os_remove :: "path \<Rightarrow> world \<Rightarrow> string + world" where
  "os_remove p w =
     (if p \<in> files w then Inr (w\<lparr>files := files w - {p}\<rparr>)
      else Inl (''[Errno 2] No such file or directory: '' @ [CHR 0x27] @ p @ [CHR 0x27]))"

text \<open>Python truthiness of an \<open>Optional[str]\<close>: neither \<open>None\<close> nor the empty string.\<close>

definition truthy :: "string option \<Rightarrow> bool" where
  "truthy r = (case r of None \<Rightarrow> False | Some s \<Rightarrow> s \<noteq> [])"

section \<open>VoiceRecognitionService (services/voice_recognition.py)\<close>

text \<open>The decoder chosen by the \<open>if/elif\<close> chain of \<open>_convert_to_wav\<close>.\<close>

definition select_decoder :: "string \<Rightarrow> decoder" where
  "select_decoder file_ext =
     (if file_ext = ''.mp3'' then FromMp3
      else if file_ext = ''.ogg'' then FromOgg
      else if file_ext = ''.m4a'' then FromFileAs ''m4a''
      else if file_ext = ''.flac'' then FromFileAs ''flac''
      else if file_ext = ''.webm'' then FromFileAs ''webm''
      else FromFileGeneric)"

text \<open>
  \<open>_convert_to_wav\<close>: the whole body is inside \<open>try\<close>; the handler of any exception
  returns the original path.
\<close>

definition convert_to_wav :: "extern \<Rightarrow> path \<Rightarrow> world \<Rightarrow> path \<times> world" where
  "convert_to_wav orc audio_file_path w =
     (let file_ext = lower (snd (splitext audio_file_path)) in
      if file_ext = ''.wav'' then (audio_file_path, w)
      else
        let wav_path = fst (splitext audio_file_path) @ ''_converted.wav'' in
        if \<not> o_decode orc (select_decoder file_ext) audio_file_path
        then (audio_file_path, w)
        else
          (case write_file (o_export orc wav_path) wav_path w of
             (Inl e, w') \<Rightarrow> (audio_file_path, w')
           | (Inr u, w') \<Rightarrow> (wav_path, w')))"

text \<open>
  \<open>speech_to_text\<close>: the converted file is removed in the branch where
  \<open>recognize_google\<close> returned; the two \<open>except\<close> clauses of the inner \<open>try\<close> and the
  outer one return \<open>None\<close> at once.
\<close>

definition speech_to_text :: "extern \<Rightarrow> path \<Rightarrow> world \<Rightarrow> string option \<times> world" where
  "speech_to_text orc audio_file_path w =
     (let w0 = w\<lparr>calls := calls w @ [CallRecognize audio_file_path]\<rparr>;
          (wav_path, w1) = convert_to_wav orc audio_file_path w0
      in case o_recognize orc wav_path of
           LoadError e \<Rightarrow> (None, w1)
         | Recognized t \<Rightarrow>
             (Some t,
              if wav_path \<noteq> audio_file_path \<and> wav_path \<in> files w1
              then w1\<lparr>files := files w1 - {wav_path}\<rparr>
              else w1)
         | UnknownValueError \<Rightarrow> (None, w1)
         | RequestError e \<Rightarrow> (None, w1))"

section \<open>GeminiService (services/gemini_service.py)\<close>

text \<open>
  \<open>__init__\<close> reads the credential from the process environment and raises
  \<open>ValueError\<close> when it is unset or empty; a failure of the model constructor is
  re-raised.
\<close>

datatype init_error = ValueError string | ModelInitError string

record gemini_service =
  api_key :: string
  model_name :: string

definition gemini_init :: "(string \<rightharpoonup> string) \<Rightarrow> string option \<Rightarrow> init_error + gemini_service" where
  "gemini_init environ model_failure =
     (case environ ''GOOGLE_API_KEY'' of
        None \<Rightarrow> Inl (ValueError ''GOOGLE_API_KEY environment variable is required'')
      | Some k \<Rightarrow>
          if k = [] then Inl (ValueError ''GOOGLE_API_KEY environment variable is required'')
          else (case model_failure of
                  Some e \<Rightarrow> Inl (ModelInitError e)
                | None \<Rightarrow> Inr \<lparr>api_key = k, model_name = ''gemini-1.5-flash''\<rparr>))"

text \<open>The model's answer to a prompt: \<open>response.text.strip()\<close>, or \<open>None\<close> when the
  response or its text is empty or the call raised.\<close>

definition generate_content :: "extern \<Rightarrow> string \<Rightarrow> string option" where
  "generate_content orc full_prompt =
     (case o_generate orc full_prompt of
        GenText t \<Rightarrow> if t = [] then None else Some (strip t)
      | GenNoResponse \<Rightarrow> None
      | GenError e \<Rightarrow> None)"

definition response_prompt :: "string \<Rightarrow> string option \<Rightarrow> string" where
  "response_prompt prompt ctx =
     (if truthy ctx
      then ''Context: '' @ the ctx @ nl @ nl @ ''User: '' @ prompt @ nl @ nl @
           ''Please provide a helpful and concise response:''
      else ''User: '' @ prompt @ nl @ nl @ ''Please provide a helpful and concise response:'')"

definition get_response :: "extern \<Rightarrow> string \<Rightarrow> string option \<Rightarrow> world \<Rightarrow> string option \<times> world" where
  "get_response orc prompt ctx w =
     (generate_content orc (response_prompt prompt ctx),
      w\<lparr>calls := calls w @ [CallGenerate prompt]\<rparr>)"

text \<open>
  \<open>get_contextual_response\<close>: a conversation turn is a dictionary (an association
  list here); the loop runs over \<open>conversation_history[-5:]\<close> and appends two lines
  for a turn that has both keys.
\<close>

type_synonym turn = "(string \<times> string) list"

definition last_n :: "nat \<Rightarrow> 'a list \<Rightarrow> 'a list" where
  "last_n n xs = drop (length xs - n) xs"

fun context_loop :: "turn list \<Rightarrow> string list \<Rightarrow> string list" where
  "context_loop [] context_parts = context_parts"
| "context_loop (t # ts) context_parts =
     (if map_of t ''user'' \<noteq> None \<and> map_of t ''assistant'' \<noteq> None
      then context_loop ts
             (context_parts @ [''User: '' @ the (map_of t ''user'')]
                            @ [''Assistant: '' @ the (map_of t ''assistant'')])
      else context_loop ts context_parts)"

definition build_context_parts :: "turn list option \<Rightarrow> string list" where
  "build_context_parts conversation_history =
     (case conversation_history of
        None \<Rightarrow> []
      | Some h \<Rightarrow> if h = [] then [] else context_loop (last_n 5 h) [])"

definition indent :: string where
  "indent = replicate 16 (CHR '' '')"

definition contextual_prompt :: "string \<Rightarrow> turn list option \<Rightarrow> string" where
  "contextual_prompt current_text conversation_history =
     (let context_parts = build_context_parts conversation_history in
      if context_parts \<noteq> []
      then nl @ indent @ ''Previous conversation:'' @ nl
           @ indent @ str_join nl context_parts @ nl
           @ indent @ nl
           @ indent @ ''Current user input: '' @ current_text @ nl
           @ indent @ nl
           @ indent @ ''Please provide a helpful response that takes into account the conversation context.'' @ nl
           @ indent @ ''Keep it conversational as it will be converted to speech.'' @ nl
           @ indent
      else nl @ indent @ ''User input: '' @ current_text @ nl
           @ indent @ nl
           @ indent @ ''Please provide a helpful and conversational response.'' @ nl
           @ indent)"

definition get_contextual_response :: "extern \<Rightarrow> string \<Rightarrow> turn list option \<Rightarrow> string option" where
  "get_contextual_response orc current_text conversation_history =
     generate_content orc (contextual_prompt current_text conversation_history)"

section \<open>TextToSpeechService (services/text_to_speech.py)\<close>

record tts_service =
  use_gtts :: bool
  engine_ok :: bool

definition output_dir :: path where
  "output_dir = path_join ''static'' ''audio''"

definition gtts_convert :: "extern \<Rightarrow> string \<Rightarrow> path \<Rightarrow> world \<Rightarrow> string option \<times> world" where
  "gtts_convert orc txt output_path w =
     (case write_file (o_tts_save orc output_path) output_path w of
        (Inl e, w') \<Rightarrow> (None, w')
      | (Inr u, w') \<Rightarrow> (Some output_path, w'))"

definition pyttsx3_convert ::
  "extern \<Rightarrow> tts_service \<Rightarrow> string \<Rightarrow> path \<Rightarrow> world \<Rightarrow> string option \<times> world" where
  "pyttsx3_convert orc svc txt output_path w =
     (if \<not> engine_ok svc then (None, w)
      else
        let wav_path = fst (splitext output_path) @ ''.wav'' in
        case write_file (o_tts_save orc wav_path) wav_path w of
          (Inl e, w') \<Rightarrow> (None, w')
        | (Inr u, w') \<Rightarrow> (Some wav_path, w'))"

definition text_to_speech ::
  "extern \<Rightarrow> tts_service \<Rightarrow> string \<Rightarrow> string option \<Rightarrow> world \<Rightarrow> string option \<times> world" where
  "text_to_speech orc svc txt filename w =
     (let w0 = w\<lparr>calls := calls w @ [CallSynthesize txt]\<rparr> in
      if txt = [] \<or> strip txt = [] then (None, w0)
      else
        let fname = (if truthy filename then the filename
                     else ''response_'' @ str_nat (o_time orc) @ ''.mp3'');
            output_path = path_join output_dir fname
        in if use_gtts svc then gtts_convert orc txt output_path w0
           else pyttsx3_convert orc svc txt output_path w0)"

text \<open>
  \<open>cleanup_old_files\<close>. The output directory maps a file name to what \<open>os.path.isfile\<close>
  and \<open>os.path.getctime\<close> report of it; \<open>names\<close> is the answer of \<open>os.listdir\<close>, in
  its order. \<open>time.time()\<close> and \<open>getctime\<close> are Python floats: a float is the real
  number it denotes, and the subtraction of two floats, which rounds, is the parameter
  \<open>float_sub\<close>. \<open>max_age_hours * 3600\<close> is integer arithmetic, and Python compares a float
  with an integer exactly. The file-system calls on the service's own directory are
  taken to succeed, so the \<open>except\<close> clause around the loop is not entered.
\<close>

datatype entry_kind = RegularFile | Directory

record dir_entry =
  kind :: entry_kind
  ctime :: real

type_synonym directory = "string \<rightharpoonup> dir_entry"

fun sweep_loop ::
  "(real \<Rightarrow> real \<Rightarrow> real) \<Rightarrow> real \<Rightarrow> int \<Rightarrow> string list \<Rightarrow> directory \<Rightarrow> directory" where
  "sweep_loop float_sub current_time max_age_seconds [] d = d"
| "sweep_loop float_sub current_time max_age_seconds (filename # rest) d =
     (case d filename of
        None \<Rightarrow> sweep_loop float_sub current_time max_age_seconds rest d
      | Some e \<Rightarrow>
          if kind e = RegularFile
          then (let file_age = float_sub current_time (ctime e) in
                if file_age > of_int max_age_seconds
                then sweep_loop float_sub current_time max_age_seconds rest (d(filename := None))
                else sweep_loop float_sub current_time max_age_seconds rest d)
          else sweep_loop float_sub current_time max_age_seconds rest d)"

definition cleanup_old_files ::
  "(real \<Rightarrow> real \<Rightarrow> real) \<Rightarrow> real \<Rightarrow> string list \<Rightarrow> int \<Rightarrow> directory \<Rightarrow> directory" where
  "cleanup_old_files float_sub current_time names max_age_hours d =
     (let max_age_seconds = max_age_hours * 3600 in
      sweep_loop float_sub current_time max_age_seconds names d)"

section \<open>The request handlers (app.py)\<close>

record response =
  status :: nat
  body :: "(string \<times> string) list"

definition json_error :: "nat \<Rightarrow> string \<Rightarrow> response" where
  "json_error code msg = \<lparr>status = code, body = [(''error'', msg)]\<rparr>"

text \<open>The \<open>except Exception\<close> clause of both handlers.\<close>

definition internal_error :: "string \<Rightarrow> response" where
  "internal_error e = json_error 500 (''Internal server error: '' @ e)"

text \<open>The multipart field \<open>audio\<close>: absent, or a file part with its file name.\<close>

datatype upload = NoAudioField | AudioField string

definition tts_default :: tts_service where
  "tts_default = \<lparr>use_gtts = True, engine_ok = False\<rparr>"

text \<open>\<open>os.remove(filepath)\<close> followed by \<open>return\<close>; \<open>Inl\<close> is a raised exception.\<close>

definition remove_then ::
  "path \<Rightarrow> response \<Rightarrow> world \<Rightarrow> (string + response) \<times> world" where
  "remove_then filepath resp w =
     (case os_remove filepath w of
        Inl e \<Rightarrow> (Inl e, w)
      | Inr w' \<Rightarrow> (Inr resp, w'))"

text \<open>Lines 88 to 122 of app.py: the three stages after the upload is saved.\<close>

definition voice_stages :: "extern \<Rightarrow> path \<Rightarrow> world \<Rightarrow> (string + response) \<times> world" where
  "voice_stages orc filepath w1 =
     (let (recognized_text, w2) = speech_to_text orc filepath w1 in
      if \<not> truthy recognized_text
      then remove_then filepath (json_error 400 ''Could not recognize speech from audio'') w2
      else
        let (gemini_response, w3) = get_response orc (the recognized_text) None w2 in
        if \<not> truthy gemini_response
        then remove_then filepath (json_error 500 ''Could not get response from Gemini'') w3
        else
          let (audio_response_path, w4) =
                text_to_speech orc tts_default (the gemini_response) None w3 in
          if \<not> truthy audio_response_path
          then remove_then filepath (json_error 500 ''Could not generate audio response'') w4
          else remove_then filepath
                 \<lparr>status = 200,
                  body = [(''status'', ''success''),
                          (''recognized_text'', the recognized_text),
                          (''response_text'', the gemini_response),
                          (''audio_response_url'',
                             ''/download-audio/'' @ basename (the audio_response_path))]\<rparr>
                 w4)"

text \<open>
  The \<open>try\<close> block of \<open>voice_command\<close>. \<open>file\<close> is truthy exactly when its file name
  is non-empty, which the guard before has checked. \<open>secure_filename\<close> is werkzeug's and
  is a parameter; the order in which the allow-list is joined into the message is the
  iteration order of a Python set, a parameter as well.
\<close>

definition voice_command_try :: "extern \<Rightarrow> upload \<Rightarrow> world \<Rightarrow> (string + response) \<times> world" where
  "voice_command_try orc req w =
     (case req of
        NoAudioField \<Rightarrow> (Inr (json_error 400 ''No audio file provided''), w)
      | AudioField fname \<Rightarrow>
          if fname = [] then (Inr (json_error 400 ''No file selected''), w)
          else if allowed_file fname then
            (let filename = o_secure_filename orc fname;
                 filepath = path_join UPLOAD_FOLDER filename
             in case write_file (o_save orc filepath) filepath w of
                  (Inl e, w1) \<Rightarrow> (Inl e, w1)
                | (Inr u, w1) \<Rightarrow> voice_stages orc filepath w1)
          else (Inr (json_error 400
                  (''Invalid file type. Allowed types: '' @ str_join '', '' (o_set_order orc))), w))"

definition voice_command :: "extern \<Rightarrow> upload \<Rightarrow> world \<Rightarrow> response \<times> world" where
  "voice_command orc req w =
     (case voice_command_try orc req w of
        (Inl e, w') \<Rightarrow> (internal_error e, w')
      | (Inr resp, w') \<Rightarrow> (resp, w'))"

text \<open>
  The body of \<open>/text-command\<close> as \<open>request.get_json()\<close> gives it: the call raised, or
  a JSON value. An object is the dictionary Python parsed (keys unique); a string value
  is the list of its code points.
\<close>

datatype json =
    JNull
  | JBool bool
  | JNum int
  | JStr "nat list"
  | JArr "json list"
  | JObj "(string \<times> json) list"

datatype json_request = BadJson string | Json json

fun json_truthy :: "json \<Rightarrow> bool" where
  "json_truthy JNull = False"
| "json_truthy (JBool b) = b"
| "json_truthy (JNum n) = (n \<noteq> 0)"
| "json_truthy (JStr s) = (s \<noteq> [])"
| "json_truthy (JArr xs) = (xs \<noteq> [])"
| "json_truthy (JObj kvs) = (kvs \<noteq> [])"

fun type_of :: "json \<Rightarrow> py_type" where
  "type_of JNull = NoneType"
| "type_of (JBool b) = BoolType"
| "type_of (JNum n) = IntType"
| "type_of (JStr s) = StrType"
| "type_of (JArr xs) = ListType"
| "type_of (JObj kvs) = DictType"

text \<open>
  \<open>'text' in data\<close>, \<open>data['text']\<close> and \<open>.strip()\<close> on a parsed value; \<open>Inl\<close> is the
  TypeError, KeyError or AttributeError Python raises. \<open>in\<close> is key membership for a
  dictionary, the substring test for a string and element membership for a list.
\<close>

definition text_key :: "nat list" where
  "text_key = map of_char ''text''"

fun has_text :: "json \<Rightarrow> py_error + bool" where
  "has_text (JObj kvs) = Inr (''text'' \<in> fst ` set kvs)"
| "has_text (JStr s) = Inr (sublist text_key s)"
| "has_text (JArr xs) = Inr (JStr text_key \<in> set xs)"
| "has_text j = Inl (NotIterable (type_of j))"

fun get_text :: "json \<Rightarrow> py_error + json" where
  "get_text (JObj kvs) =
     (case map_of kvs ''text'' of None \<Rightarrow> Inl KeyErrorText | Some v \<Rightarrow> Inr v)"
| "get_text j = Inl (BadIndex (type_of j))"

fun json_strip :: "json \<Rightarrow> py_error + nat list" where
  "json_strip (JStr s) = Inr (ustrip s)"
| "json_strip j = Inl (NoStripAttribute (type_of j))"

text \<open>Lines 147 to 167 of app.py: generation and synthesis of the text path.\<close>

definition text_stages :: "extern \<Rightarrow> string \<Rightarrow> world \<Rightarrow> (string + response) \<times> world" where
  "text_stages orc input_text w =
     (let (gemini_response, w1) = get_response orc input_text None w in
      if \<not> truthy gemini_response
      then (Inr (json_error 500 ''Could not get response from Gemini''), w1)
      else
        let (audio_response_path, w2) =
              text_to_speech orc tts_default (the gemini_response) None w1 in
        if \<not> truthy audio_response_path
        then (Inr (json_error 500 ''Could not generate audio response''), w2)
        else (Inr \<lparr>status = 200,
                   body = [(''status'', ''success''),
                           (''input_text'', input_text),
                           (''response_text'', the gemini_response),
                           (''audio_response_url'',
                              ''/download-audio/'' @ basename (the audio_response_path))]\<rparr>,
              w2))"

definition text_command_try ::
  "extern \<Rightarrow> json_request \<Rightarrow> world \<Rightarrow> (string + response) \<times> world" where
  "text_command_try orc req w =
     (case req of
        BadJson e \<Rightarrow> (Inl e, w)
      | Json data \<Rightarrow>
          if \<not> json_truthy data then (Inr (json_error 400 ''No text provided''), w)
          else
            (case has_text data of
               Inl e \<Rightarrow> (Inl (o_str_error orc e), w)
             | Inr False \<Rightarrow> (Inr (json_error 400 ''No text provided''), w)
             | Inr True \<Rightarrow>
                 (case get_text data of
                    Inl e \<Rightarrow> (Inl (o_str_error orc e), w)
                  | Inr v \<Rightarrow>
                      (case json_strip v of
                         Inl e \<Rightarrow> (Inl (o_str_error orc e), w)
                       | Inr input_text \<Rightarrow>
                           if input_text = []
                           then (Inr (json_error 400 ''Empty text provided''), w)
                           else text_stages orc (utf8 input_text) w))))"

definition text_command :: "extern \<Rightarrow> json_request \<Rightarrow> world \<Rightarrow> response \<times> world" where
  "text_command orc req w =
     (case text_command_try orc req w of
        (Inl e, w') \<Rightarrow> (internal_error e, w')
      | (Inr resp, w') \<Rightarrow> (resp, w'))"

text \<open>
  The services are module-level objects of app.py, constructed when the module is
  loaded: an exception of a constructor ends the start of the process.
\<close>

definition init_services ::
  "(string \<rightharpoonup> string) \<Rightarrow> string option \<Rightarrow> init_error + (gemini_service \<times> tts_service)" where
  "init_services environ model_failure =
     (case gemini_init environ model_failure of
        Inl e \<Rightarrow> Inl e
      | Inr g \<Rightarrow> Inr (g, tts_default))"

section \<open>Notions the properties are stated with\<close>

text \<open>A turn the prompt includes, and the two lines it contributes.\<close>

definition complete_turn :: "turn \<Rightarrow> bool" where
  "complete_turn t = (map_of t ''user'' \<noteq> None \<and> map_of t ''assistant'' \<noteq> None)"

definition turn_lines :: "turn \<Rightarrow> string list" where
  "turn_lines t =
     [''User: '' @ the (map_of t ''user''), ''Assistant: '' @ the (map_of t ''assistant'')]"

definition included_turns :: "turn list \<Rightarrow> turn list" where
  "included_turns h = filter complete_turn (last_n 5 h)"

text \<open>A file of the output directory that is strictly older than the maximum age, its
  age being the difference of the two floats as Python computes it.\<close>

definition older_than ::
  "(real \<Rightarrow> real \<Rightarrow> real) \<Rightarrow> real \<Rightarrow> int \<Rightarrow> dir_entry \<Rightarrow> bool" where
  "older_than float_sub current_time max_age_hours e =
     (kind e = RegularFile
      \<and> float_sub current_time (ctime e) > of_int (max_age_hours * 3600))"

text \<open>The response the handler gives for a file name the allow-list rejects.\<close>

definition invalid_file_type :: "extern \<Rightarrow> response" where
  "invalid_file_type orc =
     json_error 400 (''Invalid file type. Allowed types: '' @ str_join '', '' (o_set_order orc))"

section \<open>Example inputs\<close>

definition empty_world :: world where
  "empty_world = \<lparr>files = {}, calls = []\<rparr>"

definition example_extern ::
  "bool \<Rightarrow> recognize_outcome \<Rightarrow> generate_outcome \<Rightarrow> write_outcome \<Rightarrow> extern" where
  "example_extern dec rcg gen tts =
     \<lparr>o_secure_filename = (\<lambda>f. f),
      o_save = (\<lambda>p. Written),
      o_decode = (\<lambda>d p. dec),
      o_export = (\<lambda>p. Written),
      o_recognize = (\<lambda>p. rcg),
      o_generate = (\<lambda>p. gen),
      o_tts_save = (\<lambda>p. tts),
      o_time = 1700000000,
      o_set_order = [''wav'', ''mp3'', ''ogg'', ''m4a'', ''flac'', ''webm''],
      o_str_error = (\<lambda>e. ''error'')\<rparr>"

definition example_turn :: "string \<Rightarrow> turn" where
  "example_turn n = [(''user'', ''question '' @ n), (''assistant'', ''answer '' @ n)]"

definition example_history :: "turn list" where
  "example_history = map example_turn [''t1'', ''t2'', ''t3'', ''t4'', ''t5'', ''t6'', ''t7'', ''t8'']"

definition example_dir :: directory where
  "example_dir =
     [''response_1.mp3'' \<mapsto> \<lparr>kind = RegularFile, ctime = 100000 - 3600\<rparr>,
      ''response_2.mp3'' \<mapsto> \<lparr>kind = RegularFile, ctime = 100000 - 82800\<rparr>,
      ''response_3.mp3'' \<mapsto> \<lparr>kind = RegularFile, ctime = 100000 - 90000\<rparr>]"

section \<open>White space\<close>

text \<open>The encodings \<open>strip\<close> looks for, and \<open>strip\<close> on two texts.\<close>

lemma whitespace_utf8:
  "WHITESPACE_UTF8 =
     [[CHR 0x09], [CHR 0x0A], [CHR 0x0B], [CHR 0x0C], [CHR 0x0D], [CHR 0x1C],
      [CHR 0x1D], [CHR 0x1E], [CHR 0x1F], [CHR 0x20], [CHR 0xC2, CHR 0x85],
      [CHR 0xC2, CHR 0xA0], [CHR 0xE1, CHR 0x9A, CHR 0x80],
      [CHR 0xE2, CHR 0x80, CHR 0x80], [CHR 0xE2, CHR 0x80, CHR 0x81],
      [CHR 0xE2, CHR 0x80, CHR 0x82], [CHR 0xE2, CHR 0x80, CHR 0x83],
      [CHR 0xE2, CHR 0x80, CHR 0x84], [CHR 0xE2, CHR 0x80, CHR 0x85],
      [CHR 0xE2, CHR 0x80, CHR 0x86], [CHR 0xE2, CHR 0x80, CHR 0x87],
      [CHR 0xE2, CHR 0x80, CHR 0x88], [CHR 0xE2, CHR 0x80, CHR 0x89],
      [CHR 0xE2, CHR 0x80, CHR 0x8A], [CHR 0xE2, CHR 0x80, CHR 0xA8],
      [CHR 0xE2, CHR 0x80, CHR 0xA9], [CHR 0xE2, CHR 0x80, CHR 0xAF],
      [CHR 0xE2, CHR 0x81, CHR 0x9F], [CHR 0xE3, CHR 0x80, CHR 0x80]]"
  by (simp add: WHITESPACE_UTF8_def WHITESPACE_def utf8_char_def char_of_def bit_0)

lemma strip_hi: "strip ''hi'' = ''hi''"
  by (simp add: strip_def whitespace_utf8 lstrip_seqs.simps)

lemma utf8_example:
  "utf8 [0xA0, 0x20, 0x68, 0x69, 0x3000, 0x0A]
     = [CHR 0xC2, CHR 0xA0, CHR 0x20, CHR ''h'', CHR ''i'', CHR 0xE3, CHR 0x80, CHR 0x80, CHR 0x0A]"
  by (simp add: utf8_def utf8_char_def char_of_def bit_0)

lemma strip_utf8_example: "strip (utf8 [0xA0, 0x20, 0x68, 0x69, 0x3000, 0x0A]) = ''hi''"
  by (simp add: utf8_example strip_def whitespace_utf8 lstrip_seqs.simps)

lemma ustrip_example: "ustrip [0xA0, 0x20, 0x68, 0x69, 0x3000, 0x0A] = [0x68, 0x69]"
  by (simp add: ustrip_def is_space_def WHITESPACE_def)

section \<open>The extension check\<close>


lemma split_last: "c \<in> set s \<Longrightarrow> before_last c s @ c # after_last c s = s"
proof -
  assume "c \<in> set s"
  then have "dropWhile (\<lambda>x. x \<noteq> c) (rev s) \<noteq> []" by (simp add: dropWhile_eq_Nil_conv)
  then obtain ys where ys: "dropWhile (\<lambda>x. x \<noteq> c) (rev s) = c # ys"
    by (metis (mono_tags, lifting) hd_dropWhile list.exhaust_sel)
  have "rev s = takeWhile (\<lambda>x. x \<noteq> c) (rev s) @ dropWhile (\<lambda>x. x \<noteq> c) (rev s)" by simp
  then have "rev s = takeWhile (\<lambda>x. x \<noteq> c) (rev s) @ c # ys" using ys by simp
  then have "s = rev (takeWhile (\<lambda>x. x \<noteq> c) (rev s) @ c # ys)" by (metis rev_rev_ident)
  then show ?thesis by (simp add: before_last_def after_last_def ys)
qed

lemma after_last_no_sep: "c \<notin> set (after_last c s)"
  by (auto simp: after_last_def dest: set_takeWhileD)

lemma after_last_append: "c \<notin> set e \<Longrightarrow> after_last c (p @ c # e) = e"
proof -
  assume e: "c \<notin> set e"
  have "takeWhile (\<lambda>x. x \<noteq> c) (rev e @ c # rev p) = rev e @ takeWhile (\<lambda>x. x \<noteq> c) (c # rev p)"
    using e by (intro takeWhile_append2) auto
  then show ?thesis by (simp add: after_last_def)
qed

lemma allowed_file_last_extension:
  "allowed_file f = (\<exists>p e. f = p @ CHR ''.'' # e \<and> CHR ''.'' \<notin> set e \<and> lower e \<in> ALLOWED_EXTENSIONS)"
proof
  assume a: "allowed_file f"
  then have d: "CHR ''.'' \<in> set f" by (simp add: allowed_file_def)
  from a d have "lower (after_last (CHR ''.'') f) \<in> ALLOWED_EXTENSIONS"
    by (simp add: allowed_file_def rsplit1_def)
  with split_last[OF d] after_last_no_sep show "\<exists>p e. f = p @ CHR ''.'' # e \<and> CHR ''.'' \<notin> set e \<and> lower e \<in> ALLOWED_EXTENSIONS"
    by metis
next
  assume "\<exists>p e. f = p @ CHR ''.'' # e \<and> CHR ''.'' \<notin> set e \<and> lower e \<in> ALLOWED_EXTENSIONS"
  then obtain p e where f: "f = p @ CHR ''.'' # e" and e: "CHR ''.'' \<notin> set e" "lower e \<in> ALLOWED_EXTENSIONS"
    by blast
  show "allowed_file f"
    using e by (simp add: allowed_file_def rsplit1_def f after_last_append)
qed

lemma allowed_A_WAV: "allowed_file ''A.WAV''"
  by (simp add: allowed_file_def rsplit1_def after_last_def before_last_def lower_def lower_char_def ALLOWED_EXTENSIONS_def)

text \<open>
  Claim C10, as amended. The extension check accepts a file name exactly when it
  contains a dot and the text after its last dot, lowercased, is in the allow-list. So
  the check rejects a name with no dot, and the handler answers a non-empty name with
  no dot with the invalid-file-type response, the world unchanged; the empty name is
  answered \<open>No file selected\<close> before the check is consulted. The match ignores case:
  \<open>A.WAV\<close> is accepted.
\<close>

theorem allowed_file_spec:
  "(allowed_file f \<longleftrightarrow>
      (\<exists>p e. f = p @ CHR ''.'' # e \<and> CHR ''.'' \<notin> set e \<and> lower e \<in> ALLOWED_EXTENSIONS))
   \<and> (CHR ''.'' \<notin> set f \<longrightarrow> \<not> allowed_file f)
   \<and> (f \<noteq> [] \<and> CHR ''.'' \<notin> set f \<longrightarrow>
        voice_command orc (AudioField f) w = (invalid_file_type orc, w))
   \<and> voice_command orc (AudioField []) w = (json_error 400 ''No file selected'', w)
   \<and> allowed_file ''A.WAV''"
proof -
  have 1: "allowed_file f \<longleftrightarrow>
      (\<exists>p e. f = p @ CHR ''.'' # e \<and> CHR ''.'' \<notin> set e \<and> lower e \<in> ALLOWED_EXTENSIONS)"
    by (rule allowed_file_last_extension)
  have 2: "CHR ''.'' \<notin> set f \<longrightarrow> \<not> allowed_file f"
    by (simp add: allowed_file_def)
  have 3: "f \<noteq> [] \<and> CHR ''.'' \<notin> set f \<longrightarrow>
        voice_command orc (AudioField f) w = (invalid_file_type orc, w)"
    using 2 by (auto simp: voice_command_def voice_command_try_def invalid_file_type_def)
  have 4: "voice_command orc (AudioField []) w = (json_error 400 ''No file selected'', w)"
    by (simp add: voice_command_def voice_command_try_def)
  from 1 2 3 4 allowed_A_WAV show ?thesis by blast
qed

theorem allowed_file_spec_witness:
  "CHR ''.'' \<notin> set ''README'' \<and> \<not> allowed_file ''README''
   \<and> voice_command (example_extern True UnknownValueError GenNoResponse Written)
        (AudioField ''README'') empty_world
      = (invalid_file_type (example_extern True UnknownValueError GenNoResponse Written),
         empty_world)
   \<and> allowed_file ''voice.Mp3'' \<and> \<not> allowed_file ''notes.txt'' \<and> \<not> allowed_file ''a.wav.exe''"
proof -
  have 1: "CHR ''.'' \<notin> set ''README''" by simp
  have n: "''README'' \<noteq> []" by simp
  have 2: "\<not> allowed_file ''README''
      \<and> voice_command (example_extern True UnknownValueError GenNoResponse Written)
        (AudioField ''README'') empty_world
      = (invalid_file_type (example_extern True UnknownValueError GenNoResponse Written),
         empty_world)"
    using allowed_file_spec[of "''README''"
            "example_extern True UnknownValueError GenNoResponse Written" empty_world] 1 n
    by blast
  have 3: "allowed_file ''voice.Mp3''"
    by (simp add: allowed_file_def rsplit1_def after_last_def before_last_def lower_def lower_char_def ALLOWED_EXTENSIONS_def)
  have 4: "\<not> allowed_file ''notes.txt''"
    by (simp add: allowed_file_def rsplit1_def after_last_def before_last_def lower_def lower_char_def ALLOWED_EXTENSIONS_def)
  have 5: "\<not> allowed_file ''a.wav.exe''"
    by (simp add: allowed_file_def rsplit1_def after_last_def before_last_def lower_def lower_char_def ALLOWED_EXTENSIONS_def)
  show ?thesis using 1 2 3 4 5 by blast
qed

text \<open>
  Claim C10, as stated, fails for the empty file name: it has no dot, and the handler
  answers \<open>No file selected\<close>, not the invalid-file-type response.
\<close>

theorem no_dot_not_invalid_file_type:
  "CHR ''.'' \<notin> set ([] :: string)
   \<and> fst (voice_command (example_extern False (LoadError ''unreadable'') GenNoResponse Written)
          (AudioField []) empty_world)
      = json_error 400 ''No file selected''
   \<and> fst (voice_command (example_extern False (LoadError ''unreadable'') GenNoResponse Written)
          (AudioField []) empty_world)
      \<noteq> invalid_file_type (example_extern False (LoadError ''unreadable'') GenNoResponse Written)"
  by (simp add: voice_command_def voice_command_try_def invalid_file_type_def
        json_error_def example_extern_def)

subsection \<open>Facts about \<open>splitext\<close>\<close>

lemma splitext_concat: "fst (splitext p) @ snd (splitext p) = p"
proof (cases "CHR ''.'' \<in> set (after_last (CHR ''/'') p) \<and> (\<exists>c \<in> set (before_last (CHR ''.'') (after_last (CHR ''/'') p)). c \<noteq> CHR ''.'')")
  case False
  then show ?thesis by (auto simp: splitext_def Let_def)
next
  case True
  define base where "base = after_last (CHR ''/'') p"
  have dot: "CHR ''.'' \<in> set base" using True base_def by simp
  have sfx: "suffix base p" unfolding base_def after_last_def
    by (metis rev_rev_ident suffix_def takeWhile_dropWhile_id rev_append)
  from split_last[OF dot] have b: "before_last (CHR ''.'') base @ CHR ''.'' # after_last (CHR ''.'') base = base" .
  from sfx obtain d where p: "p = d @ base" by (auto simp: suffix_def)
  have "p = (d @ before_last (CHR ''.'') base) @ CHR ''.'' # after_last (CHR ''.'') base"
    using p b by simp
  then have tk: "take (length p - length (after_last (CHR ''.'') base) - 1) p = d @ before_last (CHR ''.'') base"
    by (metis (no_types, lifting) append_eq_conv_conj length_append length_Cons add_diff_cancel_right' diff_diff_left plus_1_eq_Suc add.commute)
  have sp: "splitext p = (take (length p - length (after_last (CHR ''.'') base) - 1) p,
            CHR ''.'' # after_last (CHR ''.'') base)"
    using True unfolding splitext_def Let_def base_def by simp
  have "fst (splitext p) @ snd (splitext p) = (d @ before_last (CHR ''.'') base) @ CHR ''.'' # after_last (CHR ''.'') base"
    unfolding sp using tk by simp
  also have "\<dots> = d @ base" using b by simp
  finally show ?thesis using p by simp
qed

lemma splitext_ext: "snd (splitext p) = [] \<or> hd (snd (splitext p)) = CHR ''.''"
  by (simp add: splitext_def Let_def)

section \<open>The audio normalizer and the credential\<close>


text \<open>
  Claim C5. When the extension of the path is already \<open>.wav\<close> (in any case), the
  normalizer returns the input path and touches nothing. When decoding fails, or the
  export of the converted file fails, it returns the original path instead of raising.
\<close>

theorem convert_to_wav_returns_original:
  "(lower (snd (splitext p)) = ''.wav'' \<longrightarrow> convert_to_wav orc p w = (p, w))
   \<and> (\<not> o_decode orc (select_decoder (lower (snd (splitext p)))) p
        \<longrightarrow> fst (convert_to_wav orc p w) = p)
   \<and> (o_export orc (fst (splitext p) @ ''_converted.wav'') = WriteFailed left msg
        \<longrightarrow> fst (convert_to_wav orc p w) = p)"
  by (auto simp: convert_to_wav_def Let_def write_file_def split: write_outcome.splits)

lemma splitext_a_wav: "splitext ''uploads/A.WAV'' = (''uploads/A'', ''.WAV'')"
  by code_simp
lemma splitext_a_mp3: "splitext ''uploads/a.mp3'' = (''uploads/a'', ''.mp3'')"
  by code_simp
lemma lower_WAV: "lower ''.WAV'' = ''.wav''"
  by (simp add: lower_def lower_char_def)
lemma lower_mp3: "lower ''.mp3'' = ''.mp3''"
  by (simp add: lower_def lower_char_def)

theorem convert_to_wav_returns_original_witness:
  "convert_to_wav (example_extern True UnknownValueError GenNoResponse Written) ''uploads/A.WAV'' empty_world
     = (''uploads/A.WAV'', empty_world)
   \<and> fst (convert_to_wav (example_extern False UnknownValueError GenNoResponse Written) ''uploads/a.mp3'' empty_world)
     = ''uploads/a.mp3''
   \<and> fst (convert_to_wav ((example_extern True UnknownValueError GenNoResponse Written)
              \<lparr>o_export := (\<lambda>p. WriteFailed True ''encoder'')\<rparr>) ''uploads/a.mp3'' empty_world)
     = ''uploads/a.mp3''"
  using convert_to_wav_returns_original
          [of "''uploads/A.WAV''" "example_extern True UnknownValueError GenNoResponse Written" empty_world]
        convert_to_wav_returns_original
          [of "''uploads/a.mp3''" "example_extern False UnknownValueError GenNoResponse Written" empty_world]
        convert_to_wav_returns_original
          [of "''uploads/a.mp3''" "(example_extern True UnknownValueError GenNoResponse Written)
              \<lparr>o_export := (\<lambda>p. WriteFailed True ''encoder'')\<rparr>" empty_world True "''encoder''"]
  by (simp add: splitext_a_wav splitext_a_mp3 lower_WAV lower_mp3 example_extern_def)

text \<open>
  Claim C9. With the credential \<open>GOOGLE_API_KEY\<close> unset or empty the constructor
  raises \<open>ValueError\<close>, and so does the start of the application; a service that
  was constructed holds the non-empty credential of the environment.
\<close>

theorem gemini_init_requires_key:
  "(environ ''GOOGLE_API_KEY'' = None \<or> environ ''GOOGLE_API_KEY'' = Some []
      \<longrightarrow> gemini_init environ mf = Inl (ValueError ''GOOGLE_API_KEY environment variable is required'')
        \<and> init_services environ mf = Inl (ValueError ''GOOGLE_API_KEY environment variable is required''))
   \<and> (gemini_init environ mf = Inr svc
      \<longrightarrow> api_key svc \<noteq> [] \<and> environ ''GOOGLE_API_KEY'' = Some (api_key svc))"
  by (auto simp: gemini_init_def init_services_def split: option.splits if_splits)

theorem gemini_init_requires_key_witness:
  "gemini_init Map.empty None = Inl (ValueError ''GOOGLE_API_KEY environment variable is required'')
   \<and> init_services Map.empty None = Inl (ValueError ''GOOGLE_API_KEY environment variable is required'')
   \<and> gemini_init [''GOOGLE_API_KEY'' \<mapsto> ''''] None
        = Inl (ValueError ''GOOGLE_API_KEY environment variable is required'')
   \<and> gemini_init [''GOOGLE_API_KEY'' \<mapsto> ''k1''] None
        = Inr \<lparr>api_key = ''k1'', model_name = ''gemini-1.5-flash''\<rparr>
   \<and> api_key \<lparr>api_key = ''k1'', model_name = ''gemini-1.5-flash''\<rparr> \<noteq> []"
proof -
  have ok: "gemini_init [''GOOGLE_API_KEY'' \<mapsto> ''k1''] None
        = Inr \<lparr>api_key = ''k1'', model_name = ''gemini-1.5-flash''\<rparr>"
    by (simp add: gemini_init_def)
  show ?thesis
    using gemini_init_requires_key [of Map.empty None]
          gemini_init_requires_key [of "[''GOOGLE_API_KEY'' \<mapsto> '''']" None]
          gemini_init_requires_key [of "[''GOOGLE_API_KEY'' \<mapsto> ''k1'']" None
             "\<lparr>api_key = ''k1'', model_name = ''gemini-1.5-flash''\<rparr>"] ok
    by simp
qed

section \<open>The sweep of the output directory\<close>

lemma sweep_loop_result:
  "sweep_loop fs now m names d =
     (\<lambda>n. if n \<in> set names
             \<and> (\<exists>e. d n = Some e \<and> kind e = RegularFile \<and> fs now (ctime e) > of_int m)
          then None else d n)"
proof (induction names arbitrary: d)
  case Nil
  show ?case by simp
next
  case (Cons f rest)
  show ?case
  proof (cases "d f")
    case None
    then show ?thesis by (auto simp: Cons.IH fun_eq_iff)
  next
    case (Some e)
    then show ?thesis by (auto simp: Cons.IH fun_eq_iff Let_def)
  qed
qed

text \<open>
  Claim C6. Whatever the directory holds and whatever the maximum age, after the sweep
  a name is absent if it was absent or was a file strictly older than the maximum age,
  and every other entry is as before. The age of a file is what the code computes: the
  float difference of the current time and the creation time, whatever its rounding.
  With files aged 1h, 23h and 25h and a maximum of 24 hours only the third is removed
  (the example after the theorem, where the subtraction is exact); a file whose computed
  age rounds to exactly 24 hours is kept.
\<close>

theorem cleanup_old_files_exact:
  assumes "set names = dom d"
  shows "cleanup_old_files fs now names h d n =
           (case d n of
              None \<Rightarrow> None
            | Some e \<Rightarrow> if older_than fs now h e then None else Some e)"
proof (cases "d n")
  case None
  then show ?thesis by (simp add: cleanup_old_files_def sweep_loop_result)
next
  case (Some e)
  then have "n \<in> set names" using assms by auto
  with Some show ?thesis by (simp add: cleanup_old_files_def sweep_loop_result older_than_def)
qed

theorem cleanup_old_files_exact_witness:
  "set [''response_3.mp3'', ''response_1.mp3'', ''response_2.mp3''] = dom example_dir
   \<and> cleanup_old_files (\<lambda>a b. a - b) 100000
        [''response_3.mp3'', ''response_1.mp3'', ''response_2.mp3''] 24 example_dir
        ''response_1.mp3'' = Some \<lparr>kind = RegularFile, ctime = 100000 - 3600\<rparr>
   \<and> cleanup_old_files (\<lambda>a b. a - b) 100000
        [''response_3.mp3'', ''response_1.mp3'', ''response_2.mp3''] 24 example_dir
        ''response_2.mp3'' = Some \<lparr>kind = RegularFile, ctime = 100000 - 82800\<rparr>
   \<and> cleanup_old_files (\<lambda>a b. a - b) 100000
        [''response_3.mp3'', ''response_1.mp3'', ''response_2.mp3''] 24 example_dir
        ''response_3.mp3'' = None
   \<and> set [''old.mp3''] = dom [''old.mp3'' \<mapsto> \<lparr>kind = RegularFile, ctime = 1 / 10\<rparr>]
   \<and> cleanup_old_files (\<lambda>a b. 86400) (864001 / 10) [''old.mp3''] 24
        [''old.mp3'' \<mapsto> \<lparr>kind = RegularFile, ctime = 1 / 10\<rparr>] ''old.mp3''
      = Some \<lparr>kind = RegularFile, ctime = 1 / 10\<rparr>"
proof -
  have d: "set [''response_3.mp3'', ''response_1.mp3'', ''response_2.mp3''] = dom example_dir"
    by (auto simp: example_dir_def)
  have d2: "set [''old.mp3''] = dom [''old.mp3'' \<mapsto> \<lparr>kind = RegularFile, ctime = 1 / 10\<rparr>]"
    by simp
  show ?thesis
    using d d2
      cleanup_old_files_exact [OF d, of "\<lambda>a b. a - b" 100000 24 "''response_1.mp3''"]
      cleanup_old_files_exact [OF d, of "\<lambda>a b. a - b" 100000 24 "''response_2.mp3''"]
      cleanup_old_files_exact [OF d, of "\<lambda>a b. a - b" 100000 24 "''response_3.mp3''"]
      cleanup_old_files_exact [OF d2, of "\<lambda>a b. 86400" "864001 / 10" 24 "''old.mp3''"]
    by (simp add: example_dir_def older_than_def)
qed

section \<open>The prompt with conversation history\<close>


lemma context_loop_acc:
  "context_loop ts acc = acc @ concat (map turn_lines (filter complete_turn ts))"
  by (induction ts arbitrary: acc) (simp_all add: complete_turn_def turn_lines_def)

lemma last_n_suffix: "suffix (last_n n xs) xs"
  by (simp add: last_n_def suffix_drop)

lemma last_n_length: "length (last_n n xs) = min n (length xs)"
  by (simp add: last_n_def)

lemma build_context_parts_included:
  "build_context_parts (Some h) = concat (map turn_lines (included_turns h))"
  by (simp add: build_context_parts_def context_loop_acc included_turns_def last_n_def)

lemma included_turns_nonempty_lines:
  "included_turns h \<noteq> [] \<Longrightarrow> concat (map turn_lines (included_turns h)) \<noteq> []"
  by (cases "included_turns h") (simp_all add: turn_lines_def)

lemma sublistI3: "sublist ys (xs @ ys @ zs)"
  by (auto simp: sublist_def)

lemma last_n_idem: "last_n n (last_n n xs) = last_n n xs"
  by (simp add: last_n_def)

lemma included_turns_last_n: "included_turns (last_n 5 h) = included_turns h"
  by (simp add: included_turns_def last_n_idem)

lemma contextual_prompt_included:
  "contextual_prompt current_text (Some h) =
     (if included_turns h = []
      then nl @ indent @ ''User input: '' @ current_text @ nl
           @ indent @ nl
           @ indent @ ''Please provide a helpful and conversational response.'' @ nl
           @ indent
      else nl @ indent @ ''Previous conversation:'' @ nl
           @ indent @ str_join nl (concat (map turn_lines (included_turns h))) @ nl
           @ indent @ nl
           @ indent @ ''Current user input: '' @ current_text @ nl
           @ indent @ nl
           @ indent @ ''Please provide a helpful response that takes into account the conversation context.'' @ nl
           @ indent @ ''Keep it conversational as it will be converted to speech.'' @ nl
           @ indent)"
proof (cases "included_turns h = []")
  case True
  then have "build_context_parts (Some h) = []" by (simp add: build_context_parts_included)
  with True show ?thesis by (simp add: contextual_prompt_def)
next
  case False
  then have "build_context_parts (Some h) \<noteq> []"
    using included_turns_nonempty_lines build_context_parts_included by simp
  with False show ?thesis
    unfolding contextual_prompt_def Let_def build_context_parts_included by simp
qed

text \<open>
  Claim C7. For every supplied history the prompt is fixed by the included turns: the
  turns among the last five of the history (fewer when it is shorter) that have both
  keys, in the order of the history. The prompt is exactly the frame around the joined
  lines of these turns, each contributing its user line followed by its assistant line,
  and nothing of an earlier turn: the prompt of a history is the prompt of its last
  five turns alone. With 8 prior turns the lines are those of turns 4 to 8 (the example
  after the theorem).
\<close>

theorem contextual_prompt_last_five:
  "build_context_parts (Some h) = concat (map turn_lines (included_turns h))
   \<and> subseq (included_turns h) (last_n 5 h)
   \<and> suffix (last_n 5 h) h
   \<and> length (last_n 5 h) = min 5 (length h)
   \<and> length (included_turns h) \<le> 5
   \<and> (\<forall>t \<in> set (included_turns h).
         \<exists>u a. map_of t ''user'' = Some u \<and> map_of t ''assistant'' = Some a
               \<and> turn_lines t = [''User: '' @ u, ''Assistant: '' @ a])
   \<and> (included_turns h \<noteq> [] \<longrightarrow>
         sublist (str_join nl (concat (map turn_lines (included_turns h))))
                 (contextual_prompt current_text (Some h)))
   \<and> contextual_prompt current_text (Some h) =
       (if included_turns h = []
        then nl @ indent @ ''User input: '' @ current_text @ nl
             @ indent @ nl
             @ indent @ ''Please provide a helpful and conversational response.'' @ nl
             @ indent
        else nl @ indent @ ''Previous conversation:'' @ nl
             @ indent @ str_join nl (concat (map turn_lines (included_turns h))) @ nl
             @ indent @ nl
             @ indent @ ''Current user input: '' @ current_text @ nl
             @ indent @ nl
             @ indent @ ''Please provide a helpful response that takes into account the conversation context.'' @ nl
             @ indent @ ''Keep it conversational as it will be converted to speech.'' @ nl
             @ indent)
   \<and> contextual_prompt current_text (Some h) = contextual_prompt current_text (Some (last_n 5 h))"
proof -
  have 1: "build_context_parts (Some h) = concat (map turn_lines (included_turns h))"
    by (rule build_context_parts_included)
  have 2: "subseq (included_turns h) (last_n 5 h)"
    by (simp add: included_turns_def)
  have 3: "suffix (last_n 5 h) h" by (rule last_n_suffix)
  have 4: "length (last_n 5 h) = min 5 (length h)" by (rule last_n_length)
  have "length (included_turns h) \<le> length (last_n 5 h)"
    by (simp add: included_turns_def)
  with 4 have 5: "length (included_turns h) \<le> 5" by simp
  have 6: "\<forall>t \<in> set (included_turns h).
         \<exists>u a. map_of t ''user'' = Some u \<and> map_of t ''assistant'' = Some a
               \<and> turn_lines t = [''User: '' @ u, ''Assistant: '' @ a]"
    by (auto simp: included_turns_def complete_turn_def turn_lines_def)
  have 7: "included_turns h \<noteq> [] \<longrightarrow>
         sublist (str_join nl (concat (map turn_lines (included_turns h))))
                 (contextual_prompt current_text (Some h))"
  proof
    assume ne: "included_turns h \<noteq> []"
    then have parts: "build_context_parts (Some h) \<noteq> []"
      using included_turns_nonempty_lines 1 by simp
    have "contextual_prompt current_text (Some h) =
            (nl @ indent @ ''Previous conversation:'' @ nl @ indent)
            @ str_join nl (concat (map turn_lines (included_turns h)))
            @ (nl @ indent @ nl
               @ indent @ ''Current user input: '' @ current_text @ nl
               @ indent @ nl
               @ indent @ ''Please provide a helpful response that takes into account the conversation context.'' @ nl
               @ indent @ ''Keep it conversational as it will be converted to speech.'' @ nl
               @ indent)"
      using parts unfolding contextual_prompt_def Let_def 1 by simp
    then show "sublist (str_join nl (concat (map turn_lines (included_turns h))))
                 (contextual_prompt current_text (Some h))"
      using sublistI3 by metis
  qed
  note 8 = contextual_prompt_included [of current_text h]
  have 9: "contextual_prompt current_text (Some h) = contextual_prompt current_text (Some (last_n 5 h))"
    unfolding contextual_prompt_included included_turns_last_n by simp
  from 1 2 3 4 5 6 7 8 9 show ?thesis by blast
qed

lemma example_included:
  "included_turns example_history = map example_turn [''t4'', ''t5'', ''t6'', ''t7'', ''t8'']"
  by (simp add: included_turns_def example_history_def last_n_def example_turn_def complete_turn_def)

lemma example_parts:
  "concat (map turn_lines (map example_turn [''t4'', ''t5'', ''t6'', ''t7'', ''t8''])) =
     [''User: question t4'', ''Assistant: answer t4'',
      ''User: question t5'', ''Assistant: answer t5'',
      ''User: question t6'', ''Assistant: answer t6'',
      ''User: question t7'', ''Assistant: answer t7'',
      ''User: question t8'', ''Assistant: answer t8'']"
  by (simp add: turn_lines_def example_turn_def)

theorem contextual_prompt_last_five_witness:
  "length example_history = 8
   \<and> included_turns example_history \<noteq> []
   \<and> build_context_parts (Some example_history) =
     [''User: question t4'', ''Assistant: answer t4'',
      ''User: question t5'', ''Assistant: answer t5'',
      ''User: question t6'', ''Assistant: answer t6'',
      ''User: question t7'', ''Assistant: answer t7'',
      ''User: question t8'', ''Assistant: answer t8'']
   \<and> contextual_prompt ''hello'' (Some example_history) =
       nl @ indent @ ''Previous conversation:'' @ nl
       @ indent @ str_join nl
           [''User: question t4'', ''Assistant: answer t4'',
            ''User: question t5'', ''Assistant: answer t5'',
            ''User: question t6'', ''Assistant: answer t6'',
            ''User: question t7'', ''Assistant: answer t7'',
            ''User: question t8'', ''Assistant: answer t8''] @ nl
       @ indent @ nl
       @ indent @ ''Current user input: hello'' @ nl
       @ indent @ nl
       @ indent @ ''Please provide a helpful response that takes into account the conversation context.'' @ nl
       @ indent @ ''Keep it conversational as it will be converted to speech.'' @ nl
       @ indent"
proof -
  have len: "length example_history = 8" by (simp add: example_history_def)
  have ne: "included_turns example_history \<noteq> []" by (simp add: example_included)
  show ?thesis
    using len ne contextual_prompt_last_five [of example_history "''hello''"]
    unfolding example_included example_parts by simp
qed

section \<open>The text command\<close>


lemma write_file_calls: "calls (snd (write_file out p w)) = calls w"
  by (cases out) (simp_all add: write_file_def)

lemma get_response_calls:
  "calls (snd (get_response orc p c w)) = calls w @ [CallGenerate p]"
  by (simp add: get_response_def)

lemma gtts_convert_calls: "calls (snd (gtts_convert orc t p w)) = calls w"
proof -
  obtain r w' where wf: "write_file (o_tts_save orc p) p w = (r, w')" by (cases "write_file (o_tts_save orc p) p w")
  then have "calls w' = calls w" using write_file_calls[of "o_tts_save orc p" p w] by simp
  with wf show ?thesis by (cases r) (simp_all add: gtts_convert_def)
qed

lemma pyttsx3_convert_calls: "calls (snd (pyttsx3_convert orc svc t p w)) = calls w"
proof (cases "engine_ok svc")
  case False
  then show ?thesis by (simp add: pyttsx3_convert_def)
next
  case True
  define q where "q = fst (splitext p) @ ''.wav''"
  obtain r w' where wf: "write_file (o_tts_save orc q) q w = (r, w')" by (cases "write_file (o_tts_save orc q) q w")
  then have "calls w' = calls w" using write_file_calls[of "o_tts_save orc q" q w] by simp
  with wf True show ?thesis by (cases r) (simp_all add: pyttsx3_convert_def Let_def q_def)
qed

lemma text_to_speech_calls:
  "calls (snd (text_to_speech orc svc t f w)) = calls w @ [CallSynthesize t]"
  by (simp add: text_to_speech_def Let_def gtts_convert_calls pyttsx3_convert_calls)

lemma text_stages_logs_generation:
  "\<exists>cs. calls (snd (text_stages orc t w)) = calls w @ CallGenerate t # cs"
proof -
  obtain g w1 where gr: "get_response orc t None w = (g, w1)" by (cases "get_response orc t None w")
  then have c1: "calls w1 = calls w @ [CallGenerate t]" using get_response_calls[of orc t None w] by simp
  show ?thesis
  proof (cases "truthy g")
    case False
    then show ?thesis using gr c1 by (simp add: text_stages_def)
  next
    case True
    obtain a w2 where ts: "text_to_speech orc tts_default (the g) None w1 = (a, w2)"
      by (cases "text_to_speech orc tts_default (the g) None w1")
    then have c2: "calls w2 = calls w1 @ [CallSynthesize (the g)]"
      using text_to_speech_calls[of orc tts_default "the g" None w1] by simp
    show ?thesis using True gr ts c1 c2 by (simp add: text_stages_def)
  qed
qed

text \<open>
  Claim C4. A text command whose text is empty after \<open>strip\<close> (such as two spaces, or
  any other run of the white space Python strips) is answered 400 with the message
  for an empty text, and the world is unchanged: no
  file is written and the log of stage calls is as before, so neither generation nor
  synthesis was invoked (a run of the stages always extends the log, by the lemma above).
\<close>

theorem text_command_empty_input:
  assumes "map_of kvs ''text'' = Some (JStr t)" and "ustrip t = []"
  shows "text_command orc (Json (JObj kvs)) w = (json_error 400 ''Empty text provided'', w)"
proof -
  from assms(1) have ne: "kvs \<noteq> []" by auto
  from assms(1) have mem: "''text'' \<in> fst ` set kvs"
    by (metis map_of_eq_None_iff option.distinct(1))
  have "text_command_try orc (Json (JObj kvs)) w = (Inr (json_error 400 ''Empty text provided''), w)"
    using ne mem assms by (simp add: text_command_try_def)
  then show ?thesis by (simp add: text_command_def)
qed

lemma ustrip_spaces: "ustrip [0x20, 0x20] = []"
  by (simp add: ustrip_def is_space_def WHITESPACE_def)

lemma ustrip_unicode_spaces: "ustrip [0xA0, 0x3000, 0x85, 0x09] = []"
  by (simp add: ustrip_def is_space_def WHITESPACE_def)

theorem text_command_empty_input_witness:
  "map_of [(''text'', JStr [0x20, 0x20])] ''text'' = Some (JStr [0x20, 0x20])
   \<and> ustrip [0x20, 0x20] = []
   \<and> text_command (example_extern True UnknownValueError (GenText ''hi'') Written)
        (Json (JObj [(''text'', JStr [0x20, 0x20])])) empty_world
      = (json_error 400 ''Empty text provided'', empty_world)
   \<and> ustrip [0xA0, 0x3000, 0x85, 0x09] = []
   \<and> text_command (example_extern True UnknownValueError (GenText ''hi'') Written)
        (Json (JObj [(''text'', JStr [0xA0, 0x3000, 0x85, 0x09])])) empty_world
      = (json_error 400 ''Empty text provided'', empty_world)"
proof -
  have m: "map_of [(''text'', JStr t)] ''text'' = Some (JStr t)" for t by simp
  show ?thesis
    using m ustrip_spaces ustrip_unicode_spaces
      text_command_empty_input [OF m ustrip_spaces,
        of "example_extern True UnknownValueError (GenText ''hi'') Written" empty_world]
      text_command_empty_input [OF m ustrip_unicode_spaces,
        of "example_extern True UnknownValueError (GenText ''hi'') Written" empty_world]
    by simp
qed

text \<open>
  A text that is not empty after \<open>strip\<close> reaches the stages with its UTF-8 encoding;
  \<open>strip\<close> on an encoding removes the same white space.
\<close>

lemma text_command_runs_stages:
  "text_command orc (Json (JObj [(''text'', JStr [0x20, 0x68, 0x69, 0xA0])])) w
     = (case text_stages orc ''hi'' w of
          (Inl e, w') \<Rightarrow> (internal_error e, w')
        | (Inr resp, w') \<Rightarrow> (resp, w'))"
proof -
  have s: "ustrip [0x20, 0x68, 0x69, 0xA0] = [0x68, 0x69]"
    by (simp add: ustrip_def is_space_def WHITESPACE_def)
  have u: "utf8 [0x68, 0x69] = ''hi''"
    by (simp add: utf8_def utf8_char_def char_of_def bit_0)
  show ?thesis by (simp add: text_command_def text_command_try_def s u)
qed

section \<open>The voice command\<close>



subsection \<open>What the stages do to the files\<close>

lemma write_file_files: "files w \<subseteq> files (snd (write_file out p w))"
  by (cases out) (auto simp: write_file_def)

lemma write_file_Written: "write_file Written p w = (Inr (), w\<lparr>files := insert p (files w)\<rparr>)"
  by (simp add: write_file_def)

lemma convert_to_wav_files: "files w \<subseteq> files (snd (convert_to_wav orc p w))"
proof -
  define q where "q = fst (splitext p) @ ''_converted.wav''"
  obtain r w' where wf: "write_file (o_export orc q) q w = (r, w')"
    by (cases "write_file (o_export orc q) q w")
  then have "files w \<subseteq> files w'" using write_file_files[of w "o_export orc q" q] by simp
  with wf show ?thesis
    by (cases r) (auto simp: convert_to_wav_def Let_def q_def)
qed

lemma speech_to_text_keeps_upload:
  assumes "p \<in> files w"
  shows "p \<in> files (snd (speech_to_text orc p w))"
proof -
  define w0 where "w0 = w\<lparr>calls := calls w @ [CallRecognize p]\<rparr>"
  obtain q w1 where cv: "convert_to_wav orc p w0 = (q, w1)" by (cases "convert_to_wav orc p w0")
  have "files w0 = files w" by (simp add: w0_def)
  then have in1: "p \<in> files w1"
    using assms convert_to_wav_files[of w0 orc p] cv by auto
  show ?thesis
    using cv in1 unfolding speech_to_text_def Let_def w0_def[symmetric]
    by (cases "o_recognize orc q") auto
qed

lemma get_response_files: "files (snd (get_response orc t c w)) = files w"
  by (simp add: get_response_def)

lemma gtts_convert_files: "files w \<subseteq> files (snd (gtts_convert orc t p w))"
proof -
  obtain r w' where wf: "write_file (o_tts_save orc p) p w = (r, w')"
    by (cases "write_file (o_tts_save orc p) p w")
  then have "files w \<subseteq> files w'" using write_file_files[of w "o_tts_save orc p" p] by simp
  with wf show ?thesis by (cases r) (auto simp: gtts_convert_def)
qed

lemma text_to_speech_default_files:
  "files w \<subseteq> files (snd (text_to_speech orc tts_default t f w))"
proof -
  define w0 where "w0 = w\<lparr>calls := calls w @ [CallSynthesize t]\<rparr>"
  have f0: "files w0 = files w" by (simp add: w0_def)
  have "\<And>p. files w \<subseteq> files (snd (gtts_convert orc t p w0))"
    using gtts_convert_files[of w0 orc t] f0 by simp
  then show ?thesis
    unfolding text_to_speech_def Let_def w0_def[symmetric]
    by (simp add: tts_default_def f0)
qed

lemma remove_then_present:
  "p \<in> files w \<Longrightarrow> remove_then p resp w = (Inr resp, w\<lparr>files := files w - {p}\<rparr>)"
  by (simp add: remove_then_def os_remove_def)

lemma voice_stages_unfold:
  assumes "speech_to_text orc p w1 = (r, w2)"
    and "get_response orc (the r) None w2 = (g, w3)"
    and "text_to_speech orc tts_default (the g) None w3 = (a, w4)"
  shows "voice_stages orc p w1 =
     (if \<not> truthy r
      then remove_then p (json_error 400 ''Could not recognize speech from audio'') w2
      else if \<not> truthy g
      then remove_then p (json_error 500 ''Could not get response from Gemini'') w3
      else if \<not> truthy a
      then remove_then p (json_error 500 ''Could not generate audio response'') w4
      else remove_then p
             \<lparr>status = 200,
              body = [(''status'', ''success''),
                      (''recognized_text'', the r),
                      (''response_text'', the g),
                      (''audio_response_url'', ''/download-audio/'' @ basename (the a))]\<rparr>
             w4)"
  unfolding voice_stages_def using assms by simp

lemma voice_stages_result:
  assumes p: "p \<in> files w1"
    and st: "speech_to_text orc p w1 = (r, w2)"
    and gr: "get_response orc (the r) None w2 = (g, w3)"
    and ts: "text_to_speech orc tts_default (the g) None w3 = (a, w4)"
  shows "voice_stages orc p w1 =
     (if \<not> truthy r
      then (Inr (json_error 400 ''Could not recognize speech from audio''),
            w2\<lparr>files := files w2 - {p}\<rparr>)
      else if \<not> truthy g
      then (Inr (json_error 500 ''Could not get response from Gemini''),
            w3\<lparr>files := files w3 - {p}\<rparr>)
      else if \<not> truthy a
      then (Inr (json_error 500 ''Could not generate audio response''),
            w4\<lparr>files := files w4 - {p}\<rparr>)
      else (Inr \<lparr>status = 200,
              body = [(''status'', ''success''),
                      (''recognized_text'', the r),
                      (''response_text'', the g),
                      (''audio_response_url'', ''/download-audio/'' @ basename (the a))]\<rparr>,
            w4\<lparr>files := files w4 - {p}\<rparr>))"
proof -
  have p2: "p \<in> files w2" using speech_to_text_keeps_upload[OF p, of orc] st by simp
  have p3: "p \<in> files w3" using get_response_files[of orc "the r" None w2] gr p2 by simp
  have p4: "p \<in> files w4"
    using text_to_speech_default_files[of w3 orc "the g" None] ts p3 by auto
  show ?thesis
    unfolding voice_stages_unfold[OF st gr ts]
    by (simp add: remove_then_present p2 p3 p4)
qed

lemma voice_command_saved:
  assumes "fname \<noteq> []" and "allowed_file fname"
    and "o_save orc (path_join UPLOAD_FOLDER (o_secure_filename orc fname)) = Written"
  shows "voice_command_try orc (AudioField fname) w =
           voice_stages orc (path_join UPLOAD_FOLDER (o_secure_filename orc fname))
             (w\<lparr>files := insert (path_join UPLOAD_FOLDER (o_secure_filename orc fname)) (files w)\<rparr>)"
  using assms by (simp add: voice_command_try_def Let_def write_file_Written)




subsection \<open>Runs on the example inputs\<close>

lemma splitext_up_wav: "splitext ''uploads/a.wav'' = (''uploads/a'', ''.wav'')"
  by code_simp

lemma lower_wav_ext: "lower ''.wav'' = ''.wav''"
  by (simp add: lower_def lower_char_def)

lemma convert_wav_noop:
  "lower (snd (splitext p)) = ''.wav'' \<Longrightarrow> convert_to_wav orc p w = (p, w)"
  by (simp add: convert_to_wav_def)

lemma speech_to_text_wav:
  assumes "lower (snd (splitext p)) = ''.wav''"
  shows "speech_to_text orc p w =
           (case o_recognize orc p of Recognized t \<Rightarrow> Some t | _ \<Rightarrow> None,
            w\<lparr>calls := calls w @ [CallRecognize p]\<rparr>)"
  unfolding speech_to_text_def Let_def convert_wav_noop[OF assms]
  by (cases "o_recognize orc p") simp_all

lemma str_nat_example: "str_nat 1700000000 = ''1700000000''"
  by (simp add: digit_char_def)

lemma output_path_example:
  "path_join output_dir ''response_1700000000.mp3'' = ''static/audio/response_1700000000.mp3''"
  by (simp add: path_join_def output_dir_def)

lemma basename_example:
  "basename ''static/audio/response_1700000000.mp3'' = ''response_1700000000.mp3''"
  by (simp add: basename_def after_last_def)

lemma convert_mp3_example:
  "convert_to_wav (example_extern True rcg gen tts) ''uploads/a.mp3'' w
     = (''uploads/a_converted.wav'', w\<lparr>files := insert ''uploads/a_converted.wav'' (files w)\<rparr>)"
  by (simp add: convert_to_wav_def splitext_a_mp3 lower_mp3 example_extern_def write_file_def Let_def select_decoder_def)


lemma allowed_a_wav: "allowed_file ''a.wav''"
  by (simp add: allowed_file_def rsplit1_def after_last_def before_last_def lower_def lower_char_def ALLOWED_EXTENSIONS_def)

lemma upload_path_wav: "path_join UPLOAD_FOLDER ''a.wav'' = ''uploads/a.wav''"
  by (simp add: path_join_def UPLOAD_FOLDER_def)

lemma wav_ext_example: "lower (snd (splitext ''uploads/a.wav'')) = ''.wav''"
  by (simp add: splitext_up_wav lower_wav_ext)

lemma example_try:
  "voice_command_try (example_extern dec rcg gen tts) (AudioField ''a.wav'') empty_world
     = voice_stages (example_extern dec rcg gen tts) ''uploads/a.wav''
         \<lparr>files = {''uploads/a.wav''}, calls = []\<rparr>"
  by (simp add: voice_command_try_def allowed_a_wav example_extern_def upload_path_wav
        write_file_def empty_world_def Let_def)

lemma example_speech:
  "speech_to_text (example_extern dec rcg gen tts) ''uploads/a.wav''
       \<lparr>files = {''uploads/a.wav''}, calls = []\<rparr>
     = (case rcg of Recognized t \<Rightarrow> Some t | _ \<Rightarrow> None,
        \<lparr>files = {''uploads/a.wav''}, calls = [CallRecognize ''uploads/a.wav'']\<rparr>)"
  by (simp add: speech_to_text_wav[OF wav_ext_example] example_extern_def)

lemma example_generate:
  "get_response (example_extern dec rcg gen tts) ''hello'' None
       \<lparr>files = {''uploads/a.wav''}, calls = [CallRecognize ''uploads/a.wav'']\<rparr>
     = (case gen of GenText t \<Rightarrow> if t = [] then None else Some (strip t) | _ \<Rightarrow> None,
        \<lparr>files = {''uploads/a.wav''},
         calls = [CallRecognize ''uploads/a.wav'', CallGenerate ''hello'']\<rparr>)"
  by (cases gen) (simp_all add: get_response_def generate_content_def example_extern_def)

lemma example_synthesis:
  "text_to_speech (example_extern dec rcg gen tts) tts_default ''hi'' None
       \<lparr>files = {''uploads/a.wav''},
        calls = [CallRecognize ''uploads/a.wav'', CallGenerate ''hello'']\<rparr>
     = (case tts of
          Written \<Rightarrow> Some ''static/audio/response_1700000000.mp3''
        | WriteFailed left msg \<Rightarrow> None,
        \<lparr>files = (case tts of
                    Written \<Rightarrow> {''static/audio/response_1700000000.mp3'', ''uploads/a.wav''}
                  | WriteFailed left msg \<Rightarrow>
                      if left then {''static/audio/response_1700000000.mp3'', ''uploads/a.wav''}
                      else {''uploads/a.wav''}),
         calls = [CallRecognize ''uploads/a.wav'', CallGenerate ''hello'', CallSynthesize ''hi'']\<rparr>)"
  by (cases tts)
     (simp_all add: text_to_speech_def Let_def strip_hi tts_default_def truthy_def
        example_extern_def str_nat_example output_path_example gtts_convert_def write_file_def
        del: str_nat.simps)

lemma run_recognition_failure:
  "voice_command (example_extern True UnknownValueError GenNoResponse Written)
     (AudioField ''a.wav'') empty_world
   = (json_error 400 ''Could not recognize speech from audio'',
      \<lparr>files = {}, calls = [CallRecognize ''uploads/a.wav'']\<rparr>)"
  by (simp add: voice_command_def example_try voice_stages_def example_speech truthy_def
        remove_then_def os_remove_def)

lemma run_generation_failure:
  "voice_command (example_extern True (Recognized ''hello'') GenNoResponse Written)
     (AudioField ''a.wav'') empty_world
   = (json_error 500 ''Could not get response from Gemini'',
      \<lparr>files = {}, calls = [CallRecognize ''uploads/a.wav'', CallGenerate ''hello'']\<rparr>)"
  by (simp add: voice_command_def example_try voice_stages_def example_speech example_generate
        truthy_def remove_then_def os_remove_def)

lemma run_synthesis_failure:
  "voice_command (example_extern True (Recognized ''hello'') (GenText ''hi'') (WriteFailed False ''network''))
     (AudioField ''a.wav'') empty_world
   = (json_error 500 ''Could not generate audio response'',
      \<lparr>files = {}, calls = [CallRecognize ''uploads/a.wav'', CallGenerate ''hello'', CallSynthesize ''hi'']\<rparr>)"
  by (simp add: voice_command_def example_try voice_stages_def example_speech example_generate
        example_synthesis strip_hi truthy_def remove_then_def os_remove_def)

lemma run_success:
  "voice_command (example_extern True (Recognized ''hello'') (GenText ''hi'') Written)
     (AudioField ''a.wav'') empty_world
   = (\<lparr>status = 200,
       body = [(''status'', ''success''), (''recognized_text'', ''hello''),
               (''response_text'', ''hi''),
               (''audio_response_url'', ''/download-audio/response_1700000000.mp3'')]\<rparr>,
      \<lparr>files = {''static/audio/response_1700000000.mp3''},
       calls = [CallRecognize ''uploads/a.wav'', CallGenerate ''hello'', CallSynthesize ''hi'']\<rparr>)"
  by (simp add: voice_command_def example_try voice_stages_def example_speech example_generate
        example_synthesis strip_hi truthy_def remove_then_def os_remove_def basename_example
        insert_Diff_if)


lemma example_secure: "o_secure_filename (example_extern dec rcg gen tts) f = f"
  by (simp add: example_extern_def)

lemma example_recognize: "o_recognize (example_extern dec rcg gen tts) p = rcg"
  by (simp add: example_extern_def)

lemma example_save: "o_save (example_extern dec rcg gen tts) p = Written"
  by (simp add: example_extern_def)

subsection \<open>The upload is removed on every exit path\<close>

text \<open>
  Claim C1. Whenever the request passes the checks and \<open>file.save\<close> succeeds, the
  path the upload was saved under does not exist when the handler returns. The handler
  then answers with one of its four outcomes (recognition failed, generation failed,
  synthesis failed, success), never with the catch-all error: \<open>os.remove\<close> finds the
  file on each of them. The example after the theorem runs all four.
\<close>

theorem voice_command_removes_upload:
  assumes "fname \<noteq> []" and "allowed_file fname"
    and "o_save orc (path_join UPLOAD_FOLDER (o_secure_filename orc fname)) = Written"
  shows "path_join UPLOAD_FOLDER (o_secure_filename orc fname)
           \<notin> files (snd (voice_command orc (AudioField fname) w))
         \<and> (fst (voice_command orc (AudioField fname) w)
               = json_error 400 ''Could not recognize speech from audio''
            \<or> fst (voice_command orc (AudioField fname) w)
               = json_error 500 ''Could not get response from Gemini''
            \<or> fst (voice_command orc (AudioField fname) w)
               = json_error 500 ''Could not generate audio response''
            \<or> status (fst (voice_command orc (AudioField fname) w)) = 200)"
proof -
  define p where "p = path_join UPLOAD_FOLDER (o_secure_filename orc fname)"
  define w1 where "w1 = w\<lparr>files := insert p (files w)\<rparr>"
  obtain r w2 where st: "speech_to_text orc p w1 = (r, w2)"
    by (cases "speech_to_text orc p w1")
  obtain g w3 where gr: "get_response orc (the r) None w2 = (g, w3)"
    by (cases "get_response orc (the r) None w2")
  obtain a w4 where ts: "text_to_speech orc tts_default (the g) None w3 = (a, w4)"
    by (cases "text_to_speech orc tts_default (the g) None w3")
  have p1: "p \<in> files w1" by (simp add: w1_def)
  have vt: "voice_command_try orc (AudioField fname) w = voice_stages orc p w1"
    using voice_command_saved[OF assms, of w] by (simp add: p_def w1_def)
  note res = voice_stages_result[OF p1 st gr ts]
  have "p \<notin> files (snd (voice_command orc (AudioField fname) w))"
    unfolding voice_command_def vt res by simp
  moreover have "fst (voice_command orc (AudioField fname) w)
               = json_error 400 ''Could not recognize speech from audio''
            \<or> fst (voice_command orc (AudioField fname) w)
               = json_error 500 ''Could not get response from Gemini''
            \<or> fst (voice_command orc (AudioField fname) w)
               = json_error 500 ''Could not generate audio response''
            \<or> status (fst (voice_command orc (AudioField fname) w)) = 200"
    unfolding voice_command_def vt res by simp
  ultimately show ?thesis unfolding p_def by blast
qed


theorem voice_command_removes_upload_witness:
  "''a.wav'' \<noteq> [] \<and> allowed_file ''a.wav''
   \<and> fst (voice_command (example_extern True UnknownValueError GenNoResponse Written)
            (AudioField ''a.wav'') empty_world)
       = json_error 400 ''Could not recognize speech from audio''
   \<and> ''uploads/a.wav'' \<notin> files (snd (voice_command
            (example_extern True UnknownValueError GenNoResponse Written)
            (AudioField ''a.wav'') empty_world))
   \<and> fst (voice_command (example_extern True (Recognized ''hello'') GenNoResponse Written)
            (AudioField ''a.wav'') empty_world)
       = json_error 500 ''Could not get response from Gemini''
   \<and> ''uploads/a.wav'' \<notin> files (snd (voice_command
            (example_extern True (Recognized ''hello'') GenNoResponse Written)
            (AudioField ''a.wav'') empty_world))
   \<and> fst (voice_command (example_extern True (Recognized ''hello'') (GenText ''hi'')
                 (WriteFailed False ''network''))
            (AudioField ''a.wav'') empty_world)
       = json_error 500 ''Could not generate audio response''
   \<and> ''uploads/a.wav'' \<notin> files (snd (voice_command
            (example_extern True (Recognized ''hello'') (GenText ''hi'')
                 (WriteFailed False ''network''))
            (AudioField ''a.wav'') empty_world))
   \<and> status (fst (voice_command (example_extern True (Recognized ''hello'') (GenText ''hi'') Written)
            (AudioField ''a.wav'') empty_world)) = 200
   \<and> ''uploads/a.wav'' \<notin> files (snd (voice_command
            (example_extern True (Recognized ''hello'') (GenText ''hi'') Written)
            (AudioField ''a.wav'') empty_world))"
proof -
  have ne: "''a.wav'' \<noteq> []" by simp
  show ?thesis
    using ne allowed_a_wav
      voice_command_removes_upload [OF ne allowed_a_wav example_save,
        of True UnknownValueError GenNoResponse Written empty_world]
      voice_command_removes_upload [OF ne allowed_a_wav example_save,
        of True "Recognized ''hello''" GenNoResponse Written empty_world]
      voice_command_removes_upload [OF ne allowed_a_wav example_save,
        of True "Recognized ''hello''" "GenText ''hi''" "WriteFailed False ''network''" empty_world]
      voice_command_removes_upload [OF ne allowed_a_wav example_save,
        of True "Recognized ''hello''" "GenText ''hi''" Written empty_world]
    by (simp add: example_secure upload_path_wav run_recognition_failure run_generation_failure
          run_synthesis_failure run_success)
qed

subsection \<open>No partial result in an error response\<close>

text \<open>
  Claim C8. When the upload was saved and recognition returned a text, and then
  generation or synthesis fails, the response has status 500 and its body has the
  single key \<open>error\<close> with a fixed message; the recognized text is not part of it.
\<close>

theorem voice_command_failure_only_error:
  assumes "fname \<noteq> []" and "allowed_file fname"
    and "filepath = path_join UPLOAD_FOLDER (o_secure_filename orc fname)"
    and "o_save orc filepath = Written"
    and "speech_to_text orc filepath (w\<lparr>files := insert filepath (files w)\<rparr>) = (Some t, w2)"
    and "t \<noteq> []"
    and "get_response orc t None w2 = (g, w3)"
    and "\<not> truthy g \<or> \<not> truthy (fst (text_to_speech orc tts_default (the g) None w3))"
  shows "fst (voice_command orc (AudioField fname) w) =
           (if \<not> truthy g then json_error 500 ''Could not get response from Gemini''
            else json_error 500 ''Could not generate audio response'')
         \<and> map fst (body (fst (voice_command orc (AudioField fname) w))) = [''error'']
         \<and> status (fst (voice_command orc (AudioField fname) w)) = 500"
proof -
  define w1 where "w1 = w\<lparr>files := insert filepath (files w)\<rparr>"
  obtain a w4 where ts: "text_to_speech orc tts_default (the g) None w3 = (a, w4)"
    by (cases "text_to_speech orc tts_default (the g) None w3")
  have p1: "filepath \<in> files w1" by (simp add: w1_def)
  have st: "speech_to_text orc filepath w1 = (Some t, w2)" using assms(5) by (simp add: w1_def)
  have gr: "get_response orc (the (Some t)) None w2 = (g, w3)" using assms(7) by simp
  have tr: "truthy (Some t)" using assms(6) by (simp add: truthy_def)
  have fail: "\<not> truthy g \<or> \<not> truthy a" using assms(8) ts by simp
  have vt: "voice_command_try orc (AudioField fname) w = voice_stages orc filepath w1"
    using voice_command_saved[of fname orc w] assms(1,2,3,4) by (simp add: w1_def)
  note res = voice_stages_result[OF p1 st gr ts]
  have r: "fst (voice_command orc (AudioField fname) w) =
           (if \<not> truthy g then json_error 500 ''Could not get response from Gemini''
            else json_error 500 ''Could not generate audio response'')"
    unfolding voice_command_def vt res using tr fail by auto
  show ?thesis unfolding r by (simp add: json_error_def)
qed


theorem voice_command_failure_only_error_witness:
  "fst (voice_command (example_extern True (Recognized ''hello'') GenNoResponse Written)
          (AudioField ''a.wav'') empty_world)
     = json_error 500 ''Could not get response from Gemini''
   \<and> map fst (body (fst (voice_command
          (example_extern True (Recognized ''hello'') GenNoResponse Written)
          (AudioField ''a.wav'') empty_world))) = [''error'']
   \<and> fst (voice_command (example_extern True (Recognized ''hello'') (GenText ''hi'')
               (WriteFailed False ''network''))
          (AudioField ''a.wav'') empty_world)
     = json_error 500 ''Could not generate audio response''
   \<and> map fst (body (fst (voice_command
          (example_extern True (Recognized ''hello'') (GenText ''hi'')
               (WriteFailed False ''network''))
          (AudioField ''a.wav'') empty_world))) = [''error'']"
proof -
  have ne: "''a.wav'' \<noteq> []" by simp
  have hello: "''hello'' \<noteq> []" by simp
  have fp: "''uploads/a.wav'' = path_join UPLOAD_FOLDER (o_secure_filename (example_extern dec rcg gen tts) ''a.wav'')"
    for dec rcg gen tts
    by (simp add: example_secure upload_path_wav)
  have sp: "speech_to_text (example_extern True (Recognized ''hello'') gen tts) ''uploads/a.wav''
              (empty_world\<lparr>files := insert ''uploads/a.wav'' (files empty_world)\<rparr>)
            = (Some ''hello'',
               \<lparr>files = {''uploads/a.wav''}, calls = [CallRecognize ''uploads/a.wav'']\<rparr>)"
    for gen tts
    using example_speech [of True "Recognized ''hello''" gen tts] by (simp add: empty_world_def)
  have g1: "\<not> truthy None \<or> \<not> truthy (fst (text_to_speech
              (example_extern True (Recognized ''hello'') GenNoResponse Written) tts_default (the None) None
              \<lparr>files = {''uploads/a.wav''},
               calls = [CallRecognize ''uploads/a.wav'', CallGenerate ''hello'']\<rparr>))"
    by (simp add: truthy_def)
  have g2: "\<not> truthy (Some ''hi'') \<or> \<not> truthy (fst (text_to_speech
              (example_extern True (Recognized ''hello'') (GenText ''hi'') (WriteFailed False ''network''))
              tts_default (the (Some ''hi'')) None
              \<lparr>files = {''uploads/a.wav''},
               calls = [CallRecognize ''uploads/a.wav'', CallGenerate ''hello'']\<rparr>))"
    by (simp add: example_synthesis truthy_def)
  have gen1: "get_response (example_extern True (Recognized ''hello'') GenNoResponse Written) ''hello'' None
       \<lparr>files = {''uploads/a.wav''}, calls = [CallRecognize ''uploads/a.wav'']\<rparr>
     = (None, \<lparr>files = {''uploads/a.wav''},
         calls = [CallRecognize ''uploads/a.wav'', CallGenerate ''hello'']\<rparr>)"
    by (simp add: example_generate)
  have gen2: "get_response (example_extern True (Recognized ''hello'') (GenText ''hi'') (WriteFailed False ''network'')) ''hello'' None
       \<lparr>files = {''uploads/a.wav''}, calls = [CallRecognize ''uploads/a.wav'']\<rparr>
     = (Some ''hi'', \<lparr>files = {''uploads/a.wav''},
         calls = [CallRecognize ''uploads/a.wav'', CallGenerate ''hello'']\<rparr>)"
    by (simp add: example_generate strip_hi)
  show ?thesis
    using voice_command_failure_only_error [OF ne allowed_a_wav fp example_save sp hello gen1 g1]
          voice_command_failure_only_error [OF ne allowed_a_wav fp example_save sp hello gen2 g2]
    by (simp add: truthy_def json_error_def)
qed

subsection \<open>Rejected file names\<close>

text \<open>
  Claim C3, as amended. For every non-empty file name that the extension check
  rejects, the handler answers 400 with the invalid-file-type message and the world is
  unchanged (no file is written, no stage is called). The empty file name is answered
  400 with \<open>No file selected\<close> by the guard before the extension check, the world
  unchanged as well.
\<close>

theorem invalid_extension_rejected:
  "(fname \<noteq> [] \<and> \<not> allowed_file fname \<longrightarrow>
      voice_command orc (AudioField fname) w = (invalid_file_type orc, w))
   \<and> voice_command orc (AudioField []) w = (json_error 400 ''No file selected'', w)"
  by (simp add: voice_command_def voice_command_try_def invalid_file_type_def)


lemma not_allowed_notes: "\<not> allowed_file ''notes.txt''"
  by (simp add: allowed_file_def rsplit1_def after_last_def before_last_def lower_def lower_char_def ALLOWED_EXTENSIONS_def)

theorem invalid_extension_rejected_witness:
  "''notes.txt'' \<noteq> [] \<and> \<not> allowed_file ''notes.txt''
   \<and> voice_command (example_extern True UnknownValueError GenNoResponse Written)
        (AudioField ''notes.txt'') empty_world
      = (json_error 400 ''Invalid file type. Allowed types: wav, mp3, ogg, m4a, flac, webm'',
         empty_world)"
proof -
  have ne: "''notes.txt'' \<noteq> []" by simp
  have msg: "invalid_file_type (example_extern True UnknownValueError GenNoResponse Written)
      = json_error 400 ''Invalid file type. Allowed types: wav, mp3, ogg, m4a, flac, webm''"
    by (simp add: invalid_file_type_def example_extern_def)
  show ?thesis
    using ne not_allowed_notes
      invalid_extension_rejected [of "''notes.txt''"
        "example_extern True UnknownValueError GenNoResponse Written" empty_world]
    by (simp add: msg)
qed

text \<open>
  Claim C3, as stated, fails for the empty file name: the extension check rejects it,
  and the handler answers \<open>No file selected\<close>, which is not the invalid-file-type
  response.
\<close>

theorem empty_filename_not_invalid_file_type:
  "\<not> allowed_file []
   \<and> voice_command (example_extern True UnknownValueError GenNoResponse Written)
        (AudioField []) empty_world
      = (json_error 400 ''No file selected'', empty_world)
   \<and> json_error 400 ''No file selected''
      \<noteq> invalid_file_type (example_extern True UnknownValueError GenNoResponse Written)"
  by (simp add: allowed_file_def voice_command_def voice_command_try_def invalid_file_type_def
        json_error_def example_extern_def)

subsection \<open>The converted file after recognition\<close>

lemma example_speech_mp3:
  "speech_to_text (example_extern True rcg gen tts) ''uploads/a.mp3''
       \<lparr>files = {''uploads/a.mp3''}, calls = []\<rparr>
     = (case rcg of Recognized t \<Rightarrow> Some t | _ \<Rightarrow> None,
        \<lparr>files = (case rcg of
                    Recognized t \<Rightarrow> {''uploads/a.mp3''}
                  | _ \<Rightarrow> {''uploads/a_converted.wav'', ''uploads/a.mp3''}),
         calls = [CallRecognize ''uploads/a.mp3'']\<rparr>)"
  by (cases rcg)
     (simp_all add: speech_to_text_def Let_def convert_mp3_example example_recognize insert_Diff_if)

text \<open>
  Claim C2 does not hold of \<open>speech_to_text\<close>. For the upload \<open>uploads/a.mp3\<close>,
  converted to \<open>uploads/a_converted.wav\<close>, the converted file is still there after
  a no-match (\<open>UnknownValueError\<close>) and after a service error (\<open>RequestError\<close>); it
  is removed only in the branch where recognition returned a text.
\<close>

theorem speech_to_text_leaves_converted_file:
  "speech_to_text (example_extern True UnknownValueError GenNoResponse Written) ''uploads/a.mp3''
       \<lparr>files = {''uploads/a.mp3''}, calls = []\<rparr>
     = (None, \<lparr>files = {''uploads/a_converted.wav'', ''uploads/a.mp3''},
               calls = [CallRecognize ''uploads/a.mp3'']\<rparr>)
   \<and> speech_to_text (example_extern True (RequestError ''unreachable'') GenNoResponse Written)
       ''uploads/a.mp3'' \<lparr>files = {''uploads/a.mp3''}, calls = []\<rparr>
     = (None, \<lparr>files = {''uploads/a_converted.wav'', ''uploads/a.mp3''},
               calls = [CallRecognize ''uploads/a.mp3'']\<rparr>)
   \<and> speech_to_text (example_extern True (Recognized ''hello'') GenNoResponse Written)
       ''uploads/a.mp3'' \<lparr>files = {''uploads/a.mp3''}, calls = []\<rparr>
     = (Some ''hello'', \<lparr>files = {''uploads/a.mp3''},
               calls = [CallRecognize ''uploads/a.mp3'']\<rparr>)"
  by (simp add: example_speech_mp3)

end
